theory Spec2Isabelle
  imports Main
begin

section \<open>Python values and string helpers\<close>

text \<open>
  The gateway answers with JSON. The fields the code reads through \<^verbatim>\<open>dict.get\<close> are
  modelled as optional JSON scalars: \<open>None\<close> is an absent key, \<open>JNull\<close> is JSON
  \<^verbatim>\<open>null\<close> (Python \<^verbatim>\<open>None\<close>). JSON numbers with a fraction (Python floats) and
  nested containers are outside the model. A Python \<^verbatim>\<open>str\<close> is written as a
  \<open>string\<close>, the list of its UTF-8 bytes; the only literals the code compares against are
  ASCII. The text of an incoming message alone is kept as the list of its code points,
  because that is what \<^verbatim>\<open>str.split()\<close> looks at.
\<close>

datatype jval = JNull | JBool bool | JInt int | JStr string

text \<open>Python truthiness, as used by \<^verbatim>\<open>if amount:\<close> and \<^verbatim>\<open>if not address:\<close>.\<close>

fun truthy :: "jval \<Rightarrow> bool" where
  "truthy JNull = False"
| "truthy (JBool b) = b"
| "truthy (JInt i) = (i \<noteq> 0)"
| "truthy (JStr s) = (s \<noteq> [])"

text \<open>\<^verbatim>\<open>d.get(key)\<close>: an absent key reads as \<^verbatim>\<open>None\<close>.\<close>

fun py_get :: "jval option \<Rightarrow> jval" where
  "py_get None = JNull"
| "py_get (Some v) = v"

text \<open>Decimal digits of a natural number, most significant first.\<close>

function str_nat :: "nat \<Rightarrow> string" where
  "str_nat n = (if n < 10 then [char_of (48 + n)]
                else str_nat (n div 10) @ [char_of (48 + n mod 10)])"
  by pat_completeness auto
termination
  by (relation "measure (\<lambda>n. n)") auto

declare str_nat.simps [simp del]

definition str_int :: "int \<Rightarrow> string" where
  "str_int i = (if i < 0 then CHR ''-'' # str_nat (nat (- i)) else str_nat (nat i))"

text \<open>\<^verbatim>\<open>str(v)\<close>, which is what an f-string placeholder \<^verbatim>\<open>{v}\<close> inserts.\<close>

fun py_str :: "jval \<Rightarrow> string" where
  "py_str JNull = ''None''"
| "py_str (JBool b) = (if b then ''True'' else ''False'')"
| "py_str (JInt i) = str_int i"
| "py_str (JStr s) = s"

text \<open>\<^verbatim>\<open>sub in s\<close> on strings: \<open>sub\<close> occurs in \<open>s\<close> as a contiguous block.\<close>

fun py_in :: "string \<Rightarrow> string \<Rightarrow> bool" where
  "py_in sub [] = (sub = [])"
| "py_in sub (c # cs) = (take (length sub) (c # cs) = sub \<or> py_in sub cs)"

section \<open>Invoices as the gateway returns them\<close>

text \<open>
  One entry of \<^verbatim>\<open>checkout.paymentMethods\<close>. The gateway contract makes the label a
  string, so it is typed as one (absent key: \<open>None\<close>). \<open>other_keys\<close> records whether
  the JSON object has any key besides the three the code reads; it matters only for the
  truthiness of the object itself.
\<close>

record payment_method =
  paymentMethod :: "string option"
  destination :: "jval option"
  amount :: "jval option"
  other_keys :: bool

record checkout_info =
  paymentMethods :: "payment_method list option"

record invoice =
  status :: "jval option"
  checkoutLink :: "jval option"
  checkout :: "checkout_info option"

text \<open>\<^verbatim>\<open>inv.get("checkout", {}).get("paymentMethods", [])\<close>\<close>

definition methods_of :: "invoice \<Rightarrow> payment_method list" where
  "methods_of iv =
     (case checkout iv of
        None \<Rightarrow> []
      | Some c \<Rightarrow> (case paymentMethods c of None \<Rightarrow> [] | Some ms \<Rightarrow> ms))"

text \<open>\<^verbatim>\<open>m.get("paymentMethod", "")\<close>\<close>

definition label_of :: "payment_method \<Rightarrow> string" where
  "label_of m = (case paymentMethod m of None \<Rightarrow> [] | Some l \<Rightarrow> l)"

text \<open>\<^verbatim>\<open>"Lightning" in m.get("paymentMethod", "")\<close>\<close>

definition is_lightning :: "payment_method \<Rightarrow> bool" where
  "is_lightning m = py_in ''Lightning'' (label_of m)"

text \<open>Truthiness of the method dict itself: a dict is falsy exactly when it is empty.\<close>

definition dict_truthy :: "payment_method \<Rightarrow> bool" where
  "dict_truthy m =
     (paymentMethod m \<noteq> None \<or> destination m \<noteq> None \<or> amount m \<noteq> None \<or> other_keys m)"

datatype error =
    ValueError string
  | RuntimeError string
  | IndexError
  | ExternalError string

datatype png = QrPng string
  \<comment> \<open>the PNG buffer that \<^verbatim>\<open>qrcode.make(uri)\<close> is saved into, named by the text it encodes\<close>

section \<open>Payment target resolution\<close>

subsection \<open>bot\_groups.py: generate\_payment\_qr, after the invoice is fetched\<close>

text \<open>
  Lines 74--79: the scan \<^verbatim>\<open>for m in methods: if "Lightning" in ...: chosen = m; break\<close>.
\<close>

fun scan_lightning :: "payment_method list \<Rightarrow> payment_method option" where
  "scan_lightning [] = None"
| "scan_lightning (m # ms) = (if is_lightning m then Some m else scan_lightning ms)"

text \<open>
  Lines 74--81. \<^verbatim>\<open>chosen\<close> starts as \<^verbatim>\<open>None\<close>; \<^verbatim>\<open>if not chosen\<close> also fires on an
  empty dict; \<^verbatim>\<open>methods[0]\<close> raises IndexError on an empty list.
\<close>

definition select_method :: "bool \<Rightarrow> payment_method list \<Rightarrow> error + payment_method" where
  "select_method prefer_lightning methods =
     (let chosen = (if prefer_lightning then scan_lightning methods else None)
      in case chosen of
           Some m \<Rightarrow>
             (if dict_truthy m then Inr m
              else (case methods of [] \<Rightarrow> Inl IndexError | m0 # _ \<Rightarrow> Inr m0))
         | None \<Rightarrow> (case methods of [] \<Rightarrow> Inl IndexError | m0 # _ \<Rightarrow> Inr m0))"

text \<open>Lines 83--93: destination check and URI construction for the chosen method.\<close>

definition payment_uri :: "payment_method \<Rightarrow> error + string" where
  "payment_uri chosen =
     (let address = py_get (destination chosen)
      in if \<not> truthy address then Inl (ValueError ''No payment destination found.'')
         else
           let amt = py_get (amount chosen)
           in if is_lightning chosen then Inr (''lightning:'' @ py_str address)
              else Inr (''bitcoin:'' @ py_str address
                        @ (if truthy amt then ''?amount='' @ py_str amt else [])))"

text \<open>Lines 68--93 together.\<close>

definition resolve_groups :: "bool \<Rightarrow> invoice \<Rightarrow> error + string" where
  "resolve_groups prefer_lightning iv =
     (let methods = methods_of iv
      in if methods = [] then Inl (ValueError ''No payment methods found in invoice.'')
         else (case select_method prefer_lightning methods of
                 Inl e \<Rightarrow> Inl e
               | Inr chosen \<Rightarrow> payment_uri chosen))"

subsection \<open>bot.py: generate\_payment\_qr, after the invoice is fetched\<close>

text \<open>Lines 48--57: always the first method, always the \<^verbatim>\<open>bitcoin:\<close> scheme, no destination check.\<close>

definition resolve_bot :: "invoice \<Rightarrow> error + string" where
  "resolve_bot iv =
     (case methods_of iv of
        [] \<Rightarrow> Inl (ValueError ''No payment methods in invoice'')
      | m0 # _ \<Rightarrow>
          let address = py_get (destination m0);
              amt = py_get (amount m0)
          in Inr (''bitcoin:'' @ py_str address
                  @ (if truthy amt then ''?amount='' @ py_str amt else [])))"

subsection \<open>btcpay.py: generate\_payment\_qr, after the invoice is fetched\<close>

definition resolve_btcpay :: "invoice \<Rightarrow> error + string" where
  "resolve_btcpay iv =
     (case methods_of iv of
        [] \<Rightarrow> Inl (ValueError ''No payment methods found in invoice.'')
      | m0 # _ \<Rightarrow>
          let address = py_get (destination m0)
          in if \<not> truthy address then Inl (ValueError ''No payment address found in invoice.'')
             else
               let amt = py_get (amount m0)
               in Inr (''bitcoin:'' @ py_str address
                       @ (if truthy amt then ''?amount='' @ py_str amt else [])))"

section \<open>Gateway client\<close>

text \<open>
  The three module-level settings. \<^verbatim>\<open>os.getenv\<close> gives \<^verbatim>\<open>None\<close> for an unset
  variable; a variable set to the empty string is falsy as well.
\<close>

record config =
  BTCPAY_URL :: string
  BTCPAY_API_KEY :: "string option"
  BTCPAY_STORE_ID :: "string option"

type_synonym environ = "string \<Rightarrow> string option"

definition rstrip_slash :: "string \<Rightarrow> string" where
  "rstrip_slash s = rev (dropWhile (\<lambda>c. c = CHR ''/'') (rev s))"

text \<open>
  btcpay.py, lines 27--32: everything the module does when it is imported. No statement
  there raises, whatever the environment holds.
\<close>

definition load_btcpay :: "environ \<Rightarrow> error + config" where
  "load_btcpay env =
     Inr \<lparr> BTCPAY_URL =
             rstrip_slash (case env ''BTCPAY_URL'' of
                             None \<Rightarrow> ''https://mainnet.demo.btcpayserver.org''
                           | Some u \<Rightarrow> u),
           BTCPAY_API_KEY = env ''BTCPAY_API_KEY'',
           BTCPAY_STORE_ID = env ''BTCPAY_STORE_ID'' \<rparr>"

text \<open>\<^verbatim>\<open>not val\<close> for an optional string.\<close>

definition falsy :: "string option \<Rightarrow> bool" where
  "falsy v = (case v of None \<Rightarrow> True | Some t \<Rightarrow> t = [])"

text \<open>An optional string inside an f-string.\<close>

definition str_opt :: "string option \<Rightarrow> string" where
  "str_opt v = (case v of None \<Rightarrow> ''None'' | Some t \<Rightarrow> t)"

fun py_join :: "string \<Rightarrow> string list \<Rightarrow> string" where
  "py_join sep [] = []"
| "py_join sep [x] = x"
| "py_join sep (x # y # ys) = x @ sep @ py_join sep (y # ys)"

text \<open>btcpay.py, \<^verbatim>\<open>_require_env\<close>.\<close>

definition require_env :: "config \<Rightarrow> error + unit" where
  "require_env cfg =
     (let missing =
            map fst (filter (\<lambda>(name, val). falsy val)
                       [(''BTCPAY_API_KEY'', BTCPAY_API_KEY cfg),
                        (''BTCPAY_STORE_ID'', BTCPAY_STORE_ID cfg)])
      in if missing \<noteq> []
         then Inl (RuntimeError (''Missing env var(s): '' @ py_join '', '' missing
                                 @ ''. Add them to your .env file.''))
         else Inr ())"

type_synonym headers = "(string \<times> string) list"

definition auth_headers :: "config \<Rightarrow> headers" where
  "auth_headers cfg =
     [(''Authorization'', ''token '' @ str_opt (BTCPAY_API_KEY cfg)),
      (''Content-Type'', ''application/json'')]"

text \<open>btcpay.py, \<^verbatim>\<open>_headers\<close>.\<close>

definition headers_btcpay :: "config \<Rightarrow> error + headers" where
  "headers_btcpay cfg =
     (case require_env cfg of Inl e \<Rightarrow> Inl e | Inr _ \<Rightarrow> Inr (auth_headers cfg))"

text \<open>The three bytes of the cross mark that opens the messages of bot\_groups.py.\<close>

definition cross_mark :: string where
  "cross_mark = [char_of (226::nat), char_of (157::nat), char_of (140::nat)]"

text \<open>bot\_groups.py, \<^verbatim>\<open>_headers\<close>.\<close>

definition headers_groups :: "config \<Rightarrow> error + headers" where
  "headers_groups cfg =
     (if falsy (BTCPAY_API_KEY cfg) \<or> falsy (BTCPAY_STORE_ID cfg)
      then Inl (RuntimeError
                  (cross_mark @ '' Missing BTCPAY_API_KEY or BTCPAY_STORE_ID in .env''))
      else Inr (auth_headers cfg))"

text \<open>bot.py, \<^verbatim>\<open>_headers\<close>: no check at all.\<close>

definition headers_bot :: "config \<Rightarrow> headers" where
  "headers_bot cfg = auth_headers cfg"

definition store_base_url :: "config \<Rightarrow> string" where
  "store_base_url cfg = BTCPAY_URL cfg @ ''/api/v1/stores/'' @ str_opt (BTCPAY_STORE_ID cfg)"

text \<open>
  A request as handed to \<^verbatim>\<open>requests\<close>. The amount of an invoice is a Python float
  in the source and reaches the payload as \<^verbatim>\<open>str(amount)\<close>; the model takes that text.
\<close>

record payload =
  p_amount :: string
  p_currency :: string
  p_escrow_id :: string
  p_buyer_email :: "string option"

datatype http_method = GET | POST

record request =
  http_meth :: http_method
  url :: string
  hdrs :: headers
  body :: "payload option"

text \<open>
  The gateway: from its own state and a request to the outcome of
  \<^verbatim>\<open>requests.get/post\<close>, \<^verbatim>\<open>raise_for_status\<close> and \<^verbatim>\<open>json()\<close> taken together
  (\<open>Inl\<close>: any of them raised), and its next state.
\<close>

type_synonym 'g gateway = "'g \<Rightarrow> request \<Rightarrow> (error + invoice) \<times> 'g"

text \<open>
  btcpay.py. Python evaluates \<^verbatim>\<open>headers=_headers()\<close> before the call, so a failing
  credentials check leaves no request sent.
\<close>

definition create_invoice_btcpay ::
  "config \<Rightarrow> 'g gateway \<Rightarrow> 'g \<Rightarrow> string \<Rightarrow> string \<Rightarrow> string \<Rightarrow> string option
     \<Rightarrow> (error + invoice) \<times> 'g" where
  "create_invoice_btcpay cfg gw g escrow_id amount_text currency buyer_email =
     (let u = store_base_url cfg @ ''/invoices'';
          pl = \<lparr> p_amount = amount_text, p_currency = currency, p_escrow_id = escrow_id,
                 p_buyer_email = (if falsy buyer_email then None else buyer_email) \<rparr>
      in case headers_btcpay cfg of
           Inl e \<Rightarrow> (Inl e, g)
         | Inr h \<Rightarrow> gw g \<lparr> http_meth = POST, url = u, hdrs = h, body = Some pl \<rparr>)"

definition get_invoice_btcpay ::
  "config \<Rightarrow> 'g gateway \<Rightarrow> 'g \<Rightarrow> string \<Rightarrow> (error + invoice) \<times> 'g" where
  "get_invoice_btcpay cfg gw g invoice_id =
     (let u = store_base_url cfg @ ''/invoices/'' @ invoice_id
      in case headers_btcpay cfg of
           Inl e \<Rightarrow> (Inl e, g)
         | Inr h \<Rightarrow> gw g \<lparr> http_meth = GET, url = u, hdrs = h, body = None \<rparr>)"

definition is_invoice_paid ::
  "config \<Rightarrow> 'g gateway \<Rightarrow> 'g \<Rightarrow> string \<Rightarrow> (error + bool) \<times> 'g" where
  "is_invoice_paid cfg gw g invoice_id =
     (case get_invoice_btcpay cfg gw g invoice_id of
        (Inl e, g') \<Rightarrow> (Inl e, g')
      | (Inr iv, g') \<Rightarrow> (Inr (py_get (status iv) = JStr ''Settled''), g'))"

definition generate_payment_qr_btcpay ::
  "config \<Rightarrow> 'g gateway \<Rightarrow> 'g \<Rightarrow> string \<Rightarrow> (error + png) \<times> 'g" where
  "generate_payment_qr_btcpay cfg gw g invoice_id =
     (case get_invoice_btcpay cfg gw g invoice_id of
        (Inl e, g') \<Rightarrow> (Inl e, g')
      | (Inr iv, g') \<Rightarrow>
          (case resolve_btcpay iv of
             Inl e \<Rightarrow> (Inl e, g')
           | Inr uri \<Rightarrow> (Inr (QrPng uri), g')))"

text \<open>bot\_groups.py.\<close>

definition create_invoice_groups ::
  "config \<Rightarrow> 'g gateway \<Rightarrow> 'g \<Rightarrow> string \<Rightarrow> string \<Rightarrow> string \<Rightarrow> (error + invoice) \<times> 'g" where
  "create_invoice_groups cfg gw g escrow_id amount_text currency =
     (let u = store_base_url cfg @ ''/invoices'';
          pl = \<lparr> p_amount = amount_text, p_currency = currency, p_escrow_id = escrow_id,
                 p_buyer_email = None \<rparr>
      in case headers_groups cfg of
           Inl e \<Rightarrow> (Inl e, g)
         | Inr h \<Rightarrow> gw g \<lparr> http_meth = POST, url = u, hdrs = h, body = Some pl \<rparr>)"

definition get_invoice_groups ::
  "config \<Rightarrow> 'g gateway \<Rightarrow> 'g \<Rightarrow> string \<Rightarrow> (error + invoice) \<times> 'g" where
  "get_invoice_groups cfg gw g invoice_id =
     (let u = store_base_url cfg @ ''/invoices/'' @ invoice_id
      in case headers_groups cfg of
           Inl e \<Rightarrow> (Inl e, g)
         | Inr h \<Rightarrow> gw g \<lparr> http_meth = GET, url = u, hdrs = h, body = None \<rparr>)"

definition generate_payment_qr_groups ::
  "config \<Rightarrow> 'g gateway \<Rightarrow> 'g \<Rightarrow> string \<Rightarrow> bool \<Rightarrow> (error + png \<times> string) \<times> 'g" where
  "generate_payment_qr_groups cfg gw g invoice_id prefer_lightning =
     (case get_invoice_groups cfg gw g invoice_id of
        (Inl e, g') \<Rightarrow> (Inl e, g')
      | (Inr iv, g') \<Rightarrow>
          (case resolve_groups prefer_lightning iv of
             Inl e \<Rightarrow> (Inl e, g')
           | Inr uri \<Rightarrow> (Inr (QrPng uri, uri), g')))"

text \<open>bot.py.\<close>

definition get_invoice_bot ::
  "config \<Rightarrow> 'g gateway \<Rightarrow> 'g \<Rightarrow> string \<Rightarrow> (error + invoice) \<times> 'g" where
  "get_invoice_bot cfg gw g invoice_id =
     (let u = store_base_url cfg @ ''/invoices/'' @ invoice_id
      in gw g \<lparr> http_meth = GET, url = u, hdrs = headers_bot cfg, body = None \<rparr>)"

definition generate_payment_qr_bot ::
  "config \<Rightarrow> 'g gateway \<Rightarrow> 'g \<Rightarrow> string \<Rightarrow> (error + png) \<times> 'g" where
  "generate_payment_qr_bot cfg gw g invoice_id =
     (case get_invoice_bot cfg gw g invoice_id of
        (Inl e, g') \<Rightarrow> (Inl e, g')
      | (Inr iv, g') \<Rightarrow>
          (case resolve_bot iv of
             Inl e \<Rightarrow> (Inl e, g')
           | Inr uri \<Rightarrow> (Inr (QrPng uri), g')))"

section \<open>Command handlers\<close>

text \<open>
  The text of a message is a Python \<^verbatim>\<open>str\<close>: a list of Unicode code points.
  \<open>points\<close> writes an ASCII text that way.
\<close>

definition points :: "string \<Rightarrow> nat list" where
  "points s = map of_char s"

text \<open>
  The code points for which \<^verbatim>\<open>str.isspace()\<close> holds, which are the ones
  \<^verbatim>\<open>str.split()\<close> and \<^verbatim>\<open>str.strip()\<close> treat as whitespace: U+0009 to U+000D,
  U+001C to U+0020, U+0085, U+00A0, U+1680, U+2000 to U+200A, U+2028, U+2029, U+202F,
  U+205F and U+3000.
\<close>

definition is_space :: "nat \<Rightarrow> bool" where
  "is_space n =
     ((9 \<le> n \<and> n \<le> 13) \<or> (28 \<le> n \<and> n \<le> 32) \<or> n = 133 \<or> n = 160 \<or> n = 5760
      \<or> (8192 \<le> n \<and> n \<le> 8202) \<or> n = 8232 \<or> n = 8233 \<or> n = 8239 \<or> n = 8287
      \<or> n = 12288)"

text \<open>
  \<^verbatim>\<open>str.split()\<close> without arguments cuts at runs of whitespace and drops empty pieces;
  \<open>cur\<close> is the token being read. \<^verbatim>\<open>str.strip()\<close> removes whitespace at both ends.
\<close>

fun split_from :: "nat list \<Rightarrow> nat list \<Rightarrow> nat list list" where
  "split_from cur [] = (if cur = [] then [] else [cur])"
| "split_from cur (c # cs) =
     (if is_space c then (if cur = [] then split_from [] cs else cur # split_from [] cs)
      else split_from (cur @ [c]) cs)"

definition str_split :: "nat list \<Rightarrow> nat list list" where
  "str_split t = split_from [] t"

definition py_strip :: "nat list \<Rightarrow> nat list" where
  "py_strip t = rev (dropWhile is_space (rev (dropWhile is_space t)))"

text \<open>
  The UTF-8 bytes of a code point and of a text. (A lone surrogate, which Python cannot
  encode, gets the three bytes its number would give.)
\<close>

definition utf8_point :: "nat \<Rightarrow> string" where
  "utf8_point n =
     (if n < 128 then [char_of n]
      else if n < 2048 then [char_of (192 + n div 64), char_of (128 + n mod 64)]
      else if n < 65536
        then [char_of (224 + n div 4096), char_of (128 + n div 64 mod 64),
              char_of (128 + n mod 64)]
        else [char_of (240 + n div 262144), char_of (128 + n div 4096 mod 64),
              char_of (128 + n div 64 mod 64), char_of (128 + n mod 64)])"

definition utf8 :: "nat list \<Rightarrow> string" where
  "utf8 t = concat (map utf8_point t)"

text \<open>
  \<^verbatim>\<open>text.split()\<close> as the handlers use it: the tokens of \<^verbatim>\<open>str.split()\<close>, in order,
  each handed on as a \<open>string\<close> like every other \<^verbatim>\<open>str\<close> of the model.
\<close>

definition py_split :: "nat list \<Rightarrow> string list" where
  "py_split t = map utf8 (str_split t)"

text \<open>The value stored per user: \<^verbatim>\<open>{"role": ..., "address": ...}\<close>.\<close>

record participant =
  role :: string
  address :: string

type_synonym registry = "int \<Rightarrow> participant option"

record message =
  text_of :: "nat list"
  from_user :: int

datatype msg_ref = CommandMsg | PhotoMsg
  \<comment> \<open>the message that carried the command, and the photo message sent in answer\<close>

datatype reply_text =
    UsagePay
  | UsageSeller
  | UsageBuyer
  | ErrorText error
  | RegisteredSeller string
  | RegisteredBuyer string

datatype event =
    Reply reply_text
  | AnswerPhoto png string string
      \<comment> \<open>bot.py: the QR, the invoice id and the checkout link of the caption\<close>
  | WriteFile string png
  | ReplyPhoto string string string
      \<comment> \<open>bot\_groups.py: the file sent, the invoice id and the URI of the caption\<close>
  | Delete msg_ref

text \<open>
  What the platform and the file system answer to the calls that may fail (\<open>None\<close>: the
  call succeeds). Text replies are taken to be delivered.
\<close>

record platform =
  photo_result :: "error option"
  delete_result :: "msg_ref \<Rightarrow> error option"
  file_result :: "string \<Rightarrow> error option"

text \<open>
  The process state a handler runs in: the registry of bot.py (\<^verbatim>\<open>user_roles\<close>), the
  gateway's state, a logical clock advanced only by \<^verbatim>\<open>asyncio.sleep\<close>, and the
  effects so far, each with the clock value at which it happened.
\<close>

record 'g bot_state =
  user_roles :: registry
  gateway_state :: 'g
  now :: nat
  trace :: "(nat \<times> event) list"

definition emit :: "event \<Rightarrow> 'g bot_state \<Rightarrow> 'g bot_state" where
  "emit e s = s\<lparr> trace := trace s @ [(now s, e)] \<rparr>"

definition sleep :: "nat \<Rightarrow> 'g bot_state \<Rightarrow> 'g bot_state" where
  "sleep n s = s\<lparr> now := now s + n \<rparr>"

subsection \<open>bot.py: /seller and /buyer\<close>

text \<open>
  The one statement that writes the registry,
  \<^verbatim>\<open>user_roles[message.from_user.id] = {"role": r, "address": wallet}\<close>,
  and the read \<^verbatim>\<open>user_roles.get(uid)\<close>.
\<close>

definition register :: "int \<Rightarrow> string \<Rightarrow> string \<Rightarrow> registry \<Rightarrow> registry" where
  "register uid r wallet reg = reg(uid \<mapsto> \<lparr> role = r, address = wallet \<rparr>)"

definition lookup :: "registry \<Rightarrow> int \<Rightarrow> participant option" where
  "lookup reg uid = reg uid"

definition cmd_seller :: "message \<Rightarrow> 'g bot_state \<Rightarrow> 'g bot_state" where
  "cmd_seller msg s =
     (let parts = py_split (text_of msg)
      in if length parts < 2 then emit (Reply UsageSeller) s
         else
           let wallet = parts ! 1
           in emit (Reply (RegisteredSeller wallet))
                (s\<lparr> user_roles := register (from_user msg) ''seller'' wallet (user_roles s) \<rparr>))"

definition cmd_buyer :: "message \<Rightarrow> 'g bot_state \<Rightarrow> 'g bot_state" where
  "cmd_buyer msg s =
     (let parts = py_split (text_of msg)
      in if length parts < 2 then emit (Reply UsageBuyer) s
         else
           let wallet = parts ! 1
           in emit (Reply (RegisteredBuyer wallet))
                (s\<lparr> user_roles := register (from_user msg) ''buyer'' wallet (user_roles s) \<rparr>))"

subsection \<open>bot.py: /pay\<close>

text \<open>
  Everything after the usage check runs inside \<^verbatim>\<open>try ... except Exception as e\<close>,
  whose handler replies with the error. The invoice is fetched twice: once here for the
  checkout link, once inside \<^verbatim>\<open>generate_payment_qr\<close>.
\<close>

definition cmd_pay_bot ::
  "config \<Rightarrow> 'g gateway \<Rightarrow> platform \<Rightarrow> message \<Rightarrow> 'g bot_state \<Rightarrow> 'g bot_state" where
  "cmd_pay_bot cfg gw pf msg s =
     (let parts = py_split (text_of msg)
      in if length parts < 2 then emit (Reply UsagePay) s
         else
           let invoice_id = parts ! 1
           in case get_invoice_bot cfg gw (gateway_state s) invoice_id of
                (Inl e, g1) \<Rightarrow> emit (Reply (ErrorText e)) (s\<lparr> gateway_state := g1 \<rparr>)
              | (Inr iv, g1) \<Rightarrow>
                  let checkout_url = py_str (py_get (checkoutLink iv))
                  in case generate_payment_qr_bot cfg gw g1 invoice_id of
                       (Inl e, g2) \<Rightarrow> emit (Reply (ErrorText e)) (s\<lparr> gateway_state := g2 \<rparr>)
                     | (Inr qr_buf, g2) \<Rightarrow>
                         let s2 = s\<lparr> gateway_state := g2 \<rparr>
                         in case photo_result pf of
                              Some e \<Rightarrow> emit (Reply (ErrorText e)) s2
                            | None \<Rightarrow>
                                let s3 = sleep 60 (emit (AnswerPhoto qr_buf invoice_id checkout_url) s2)
                                in case delete_result pf PhotoMsg of
                                     Some e \<Rightarrow> emit (Reply (ErrorText e)) s3
                                   | None \<Rightarrow>
                                       let s4 = emit (Delete PhotoMsg) s3
                                       in case delete_result pf CommandMsg of
                                            Some e \<Rightarrow> emit (Reply (ErrorText e)) s4
                                          | None \<Rightarrow> emit (Delete CommandMsg) s4)"

subsection \<open>bot\_groups.py: /pay\<close>

definition cmd_pay_groups ::
  "config \<Rightarrow> 'g gateway \<Rightarrow> platform \<Rightarrow> message \<Rightarrow> 'g bot_state \<Rightarrow> 'g bot_state" where
  "cmd_pay_groups cfg gw pf msg s =
     (let args = py_split (py_strip (text_of msg))
      in if length args < 2 then emit (Reply UsagePay) s
         else
           let invoice_id = args ! 1
           in case generate_payment_qr_groups cfg gw (gateway_state s) invoice_id False of
                (Inl e, g1) \<Rightarrow> emit (Reply (ErrorText e)) (s\<lparr> gateway_state := g1 \<rparr>)
              | (Inr (qr_buf, uri), g1) \<Rightarrow>
                  let s1 = s\<lparr> gateway_state := g1 \<rparr>;
                      tmp_file = ''/tmp/'' @ invoice_id @ ''.png''
                  in case file_result pf tmp_file of
                       Some e \<Rightarrow> emit (Reply (ErrorText e)) s1
                     | None \<Rightarrow>
                         let s2 = emit (WriteFile tmp_file qr_buf) s1
                         in case photo_result pf of
                              Some e \<Rightarrow> emit (Reply (ErrorText e)) s2
                            | None \<Rightarrow> emit (ReplyPhoto tmp_file invoice_id uri) s2)"

section \<open>Channel provisioning (app\_tdlib.py)\<close>

text \<open>
  What the two clients answer to each call of \<^verbatim>\<open>create_new_group\<close>, and the random
  draws of \<^verbatim>\<open>generate_suffix\<close> (the k-th call of \<^verbatim>\<open>random.choice\<close> picks the letter
  at index \<open>draw k mod 26\<close>).
\<close>

record tdlib =
  get_me_result :: "error + string"
  create_supergroup_result :: "string \<Rightarrow> error + int"
  add_chat_members_result :: "int \<Rightarrow> string \<Rightarrow> error option"
  promote_chat_member_result :: "int \<Rightarrow> string \<Rightarrow> error option"
  export_chat_invite_link_result :: "int \<Rightarrow> error + string"
  create_chat_invite_link_result :: "int \<Rightarrow> error + string"
  draw :: "nat \<Rightarrow> nat"

definition ascii_lowercase :: string where
  "ascii_lowercase = ''abcdefghijklmnopqrstuvwxyz''"

definition generate_suffix :: "(nat \<Rightarrow> nat) \<Rightarrow> nat \<Rightarrow> string" where
  "generate_suffix rnd len = map (\<lambda>k. ascii_lowercase ! (rnd k mod 26)) [0..<len]"

text \<open>
  \<^verbatim>\<open>create_new_group\<close>: the result (invite link, title, chat id) or the exception
  that leaves the function, paired with \<^verbatim>\<open>BOT_USERNAME_CACHE\<close> afterwards. The two
  \<^verbatim>\<open>try ... except Exception: pass\<close> steps cannot fail the function, so their
  outcomes are read and dropped.
\<close>

definition create_new_group ::
  "tdlib \<Rightarrow> string \<Rightarrow> string option \<Rightarrow> (error + string \<times> string \<times> int) \<times> string option" where
  "create_new_group td group_base_name cache =
     (case (if falsy cache
            then (case get_me_result td of Inl e \<Rightarrow> Inl e | Inr name \<Rightarrow> Inr (Some name))
            else Inr cache) of
        Inl e \<Rightarrow> (Inl e, cache)
      | Inr cache' \<Rightarrow>
          let code = generate_suffix (draw td) 5;
              title = group_base_name @ '' #'' @ code
          in case create_supergroup_result td title of
               Inl e \<Rightarrow> (Inl e, cache')
             | Inr chat_id \<Rightarrow>
                 let bot_name = ''@'' @ str_opt cache';
                     added = add_chat_members_result td chat_id bot_name;
                     promoted = promote_chat_member_result td chat_id bot_name
                 in case export_chat_invite_link_result td chat_id of
                      Inr invite_link \<Rightarrow> (Inr (invite_link, title, chat_id), cache')
                    | Inl _ \<Rightarrow>
                        (case create_chat_invite_link_result td chat_id of
                           Inl e \<Rightarrow> (Inl e, cache')
                         | Inr invite_link \<Rightarrow> (Inr (invite_link, title, chat_id), cache')))"

section \<open>Sample data\<close>

text \<open>Concrete invoices, settings and collaborators on which the results below are run.\<close>

definition ex_btc :: payment_method where
  "ex_btc = \<lparr> paymentMethod = Some ''BTC'', destination = Some (JStr ''bc1q''),
              amount = Some (JStr ''0.01''), other_keys = False \<rparr>"

definition ex_ln :: payment_method where
  "ex_ln = \<lparr> paymentMethod = Some ''BTC-LightningNetwork'', destination = Some (JStr ''lnbc1''),
             amount = Some (JStr ''0.01''), other_keys = False \<rparr>"

definition ex_invoice :: "payment_method list \<Rightarrow> invoice" where
  "ex_invoice ms = \<lparr> status = Some (JStr ''New''),
                     checkoutLink = Some (JStr ''https://pay.example/i/inv_1''),
                     checkout = Some \<lparr> paymentMethods = Some ms \<rparr> \<rparr>"

definition ex_config :: config where
  "ex_config = \<lparr> BTCPAY_URL = ''https://pay.example'', BTCPAY_API_KEY = Some ''key'',
                 BTCPAY_STORE_ID = Some ''store'' \<rparr>"

text \<open>A gateway that answers every request with the same invoice and counts the requests.\<close>

definition ex_gateway :: "invoice \<Rightarrow> nat gateway" where
  "ex_gateway iv g req = (Inr iv, Suc g)"

definition ex_no_dest :: payment_method where
  "ex_no_dest = \<lparr> paymentMethod = Some ''BTC'', destination = None,
                  amount = Some (JStr ''0.01''), other_keys = False \<rparr>"

definition ex_empty_amount :: payment_method where
  "ex_empty_amount = \<lparr> paymentMethod = Some ''BTC'', destination = Some (JStr ''bc1q''),
                       amount = Some (JStr []), other_keys = False \<rparr>"

definition ex_empty_environ :: environ where
  "ex_empty_environ name = None"

definition ex_unconfigured :: config where
  "ex_unconfigured = \<lparr> BTCPAY_URL = ''https://mainnet.demo.btcpayserver.org'',
                       BTCPAY_API_KEY = None, BTCPAY_STORE_ID = None \<rparr>"

definition ex_state :: "nat bot_state" where
  "ex_state = \<lparr> user_roles = Map.empty, gateway_state = 0, now = 0, trace = [] \<rparr>"

definition ex_seller_msg :: message where
  "ex_seller_msg = \<lparr> text_of = points ''/seller addrA'', from_user = 42 \<rparr>"

definition ex_buyer_msg :: message where
  "ex_buyer_msg = \<lparr> text_of = points ''/buyer addrB'', from_user = 42 \<rparr>"

definition ex_bare_msg :: message where
  "ex_bare_msg = \<lparr> text_of = points ''/seller  '', from_user = 42 \<rparr>"

definition ex_platform :: platform where
  "ex_platform = \<lparr> photo_result = None, delete_result = (\<lambda>r. None),
                    file_result = (\<lambda>path. None) \<rparr>"

definition ex_pay_msg :: message where
  "ex_pay_msg = \<lparr> text_of = points ''/pay inv_1'', from_user = 42 \<rparr>"

text \<open>
  A command whose argument is set off by a no-break space (U+00A0), and a state in which
  user 42 is already registered as a seller.
\<close>

definition ex_nbsp_msg :: message where
  "ex_nbsp_msg = \<lparr> text_of = points ''/seller'' @ [160] @ points ''addrE'', from_user = 7 \<rparr>"

definition ex_registered :: "nat bot_state" where
  "ex_registered = \<lparr> user_roles = [42 \<mapsto> \<lparr> role = ''seller'', address = ''addrA'' \<rparr>],
                     gateway_state = 0, now = 5, trace = [] \<rparr>"

definition ex_tdlib :: tdlib where
  "ex_tdlib = \<lparr> get_me_result = Inr ''escrow_bot'',
                 create_supergroup_result = (\<lambda>title. Inr 1001),
                 add_chat_members_result = (\<lambda>chat_id name. Some (ExternalError ''add refused'')),
                 promote_chat_member_result =
                   (\<lambda>chat_id name. Some (ExternalError ''promote refused'')),
                 export_chat_invite_link_result = (\<lambda>chat_id. Inl (ExternalError ''export refused'')),
                 create_chat_invite_link_result = (\<lambda>chat_id. Inr ''https://t.me/+abc''),
                 draw = (\<lambda>k. k) \<rparr>"

definition ex_tdlib_no_identity :: tdlib where
  "ex_tdlib_no_identity = ex_tdlib \<lparr> get_me_result := Inl (ExternalError ''get_me refused'') \<rparr>"

section \<open>Verified properties\<close>

subsection \<open>Method selection\<close>

lemma is_lightning_label: "is_lightning m \<Longrightarrow> paymentMethod m \<noteq> None"
  by (cases "paymentMethod m") (simp_all add: is_lightning_def label_of_def)

lemma is_lightning_truthy: "is_lightning m \<Longrightarrow> dict_truthy m"
  by (simp add: dict_truthy_def is_lightning_label)

lemma scan_lightning_None: "scan_lightning ms = None \<longleftrightarrow> (\<forall>m\<in>set ms. \<not> is_lightning m)"
  by (induction ms) auto

lemma scan_lightning_Some:
  "scan_lightning ms = Some m \<longleftrightarrow>
     (\<exists>pre post. ms = pre @ m # post \<and> is_lightning m \<and> (\<forall>x\<in>set pre. \<not> is_lightning x))"
proof (induction ms)
  case Nil
  then show ?case by simp
next
  case (Cons a ms)
  show ?case
  proof (cases "is_lightning a")
    case True
    have "scan_lightning (a # ms) = Some m \<longleftrightarrow> a = m" using True by auto
    also have "\<dots> \<longleftrightarrow> (\<exists>pre post. a # ms = pre @ m # post \<and> is_lightning m \<and> (\<forall>x\<in>set pre. \<not> is_lightning x))"
    proof
      assume "a = m"
      then have "a # ms = [] @ m # ms \<and> is_lightning m \<and> (\<forall>x\<in>set []. \<not> is_lightning x)"
        using True by simp
      then show "\<exists>pre post. a # ms = pre @ m # post \<and> is_lightning m \<and> (\<forall>x\<in>set pre. \<not> is_lightning x)"
        by blast
    next
      assume "\<exists>pre post. a # ms = pre @ m # post \<and> is_lightning m \<and> (\<forall>x\<in>set pre. \<not> is_lightning x)"
      then obtain pre post where h: "a # ms = pre @ m # post" "\<forall>x\<in>set pre. \<not> is_lightning x"
        by blast
      show "a = m"
      proof (cases pre)
        case Nil
        with h show ?thesis by simp
      next
        case (Cons b pre')
        with h have "b = a" "b \<in> set pre" by auto
        with h True show ?thesis by blast
      qed
    qed
    finally show ?thesis .
  next
    case False
    have "scan_lightning (a # ms) = Some m \<longleftrightarrow> scan_lightning ms = Some m" using False by simp
    also have "\<dots> \<longleftrightarrow> (\<exists>pre post. ms = pre @ m # post \<and> is_lightning m \<and> (\<forall>x\<in>set pre. \<not> is_lightning x))"
      by (rule Cons.IH)
    also have "\<dots> \<longleftrightarrow> (\<exists>pre post. a # ms = pre @ m # post \<and> is_lightning m \<and> (\<forall>x\<in>set pre. \<not> is_lightning x))"
    proof
      assume "\<exists>pre post. ms = pre @ m # post \<and> is_lightning m \<and> (\<forall>x\<in>set pre. \<not> is_lightning x)"
      then obtain pre post where "ms = pre @ m # post" "is_lightning m" "\<forall>x\<in>set pre. \<not> is_lightning x"
        by blast
      then have "a # ms = (a # pre) @ m # post \<and> is_lightning m \<and> (\<forall>x\<in>set (a # pre). \<not> is_lightning x)"
        using False by simp
      then show "\<exists>pre post. a # ms = pre @ m # post \<and> is_lightning m \<and> (\<forall>x\<in>set pre. \<not> is_lightning x)"
        by blast
    next
      assume "\<exists>pre post. a # ms = pre @ m # post \<and> is_lightning m \<and> (\<forall>x\<in>set pre. \<not> is_lightning x)"
      then obtain pre post where h: "a # ms = pre @ m # post" "is_lightning m" "\<forall>x\<in>set pre. \<not> is_lightning x"
        by blast
      show "\<exists>pre post. ms = pre @ m # post \<and> is_lightning m \<and> (\<forall>x\<in>set pre. \<not> is_lightning x)"
      proof (cases pre)
        case Nil
        with h False show ?thesis by simp
      next
        case (Cons b pre')
        with h have "ms = pre' @ m # post" "\<forall>x\<in>set pre'. \<not> is_lightning x" by auto
        with h show ?thesis by blast
      qed
    qed
    finally show ?thesis .
  qed
qed

text \<open>
  C1. For an invoice with at least one payment method, bot\_groups.py selects as follows.
  When the Lightning preference is set and some method's label contains \<^verbatim>\<open>Lightning\<close>,
  the method chosen is the first such one, wherever it stands: the list splits into a
  prefix without any Lightning label, the chosen method, and the rest. When the preference
  is off, or no label contains the marker, the method chosen is the head of the list as
  the gateway ordered it. In both cases the URI is built from exactly that method.
\<close>

theorem C1_selection:
  assumes "methods_of iv \<noteq> []"
  shows "(prefer \<and> (\<exists>m\<in>set (methods_of iv). is_lightning m) \<longrightarrow>
            (\<exists>pre m post. methods_of iv = pre @ m # post \<and> is_lightning m
               \<and> (\<forall>x\<in>set pre. \<not> is_lightning x)
               \<and> select_method prefer (methods_of iv) = Inr m
               \<and> resolve_groups prefer iv = payment_uri m))
       \<and> (\<not> prefer \<or> (\<forall>m\<in>set (methods_of iv). \<not> is_lightning m) \<longrightarrow>
            select_method prefer (methods_of iv) = Inr (hd (methods_of iv))
            \<and> resolve_groups prefer iv = payment_uri (hd (methods_of iv)))"
proof (intro conjI impI)
  assume a: "prefer \<and> (\<exists>m\<in>set (methods_of iv). is_lightning m)"
  then have "scan_lightning (methods_of iv) \<noteq> None"
    by (simp add: scan_lightning_None)
  then obtain m where m: "scan_lightning (methods_of iv) = Some m" by blast
  then obtain pre post where d: "methods_of iv = pre @ m # post" "is_lightning m"
      "\<forall>x\<in>set pre. \<not> is_lightning x"
    using scan_lightning_Some by blast
  have sel: "select_method prefer (methods_of iv) = Inr m"
    using a m d(2) by (simp add: select_method_def is_lightning_truthy)
  have "resolve_groups prefer iv = payment_uri m"
    using assms sel by (simp add: resolve_groups_def)
  with d sel show "\<exists>pre m post. methods_of iv = pre @ m # post \<and> is_lightning m
               \<and> (\<forall>x\<in>set pre. \<not> is_lightning x)
               \<and> select_method prefer (methods_of iv) = Inr m
               \<and> resolve_groups prefer iv = payment_uri m"
    by blast
next
  assume a: "\<not> prefer \<or> (\<forall>m\<in>set (methods_of iv). \<not> is_lightning m)"
  then have n: "(if prefer then scan_lightning (methods_of iv) else None) = None"
    by (auto simp: scan_lightning_None)
  obtain m0 rest where ms: "methods_of iv = m0 # rest"
    using assms by (cases "methods_of iv") auto
  have "select_method prefer (methods_of iv) = Inr m0"
    unfolding select_method_def n by (simp add: ms)
  then have sel: "select_method prefer (methods_of iv) = Inr (hd (methods_of iv))"
    by (simp add: ms)
  then show "select_method prefer (methods_of iv) = Inr (hd (methods_of iv))" .
  show "resolve_groups prefer iv = payment_uri (hd (methods_of iv))"
    using assms sel by (simp add: resolve_groups_def)
qed

lemma methods_of_ex_invoice: "methods_of (ex_invoice ms) = ms"
  by (simp add: methods_of_def ex_invoice_def)

lemma ex_labels: "\<not> is_lightning ex_btc" "is_lightning ex_ln"
  by (simp_all add: is_lightning_def label_of_def ex_btc_def ex_ln_def)

theorem C1_selection_witness:
  "methods_of (ex_invoice [ex_btc, ex_ln]) \<noteq> []
   \<and> select_method True (methods_of (ex_invoice [ex_btc, ex_ln])) = Inr ex_ln
   \<and> select_method False (methods_of (ex_invoice [ex_btc, ex_ln])) = Inr ex_btc"
proof -
  have h: "methods_of (ex_invoice [ex_btc, ex_ln]) \<noteq> []"
    by (simp add: methods_of_ex_invoice)
  have l: "\<exists>m\<in>set (methods_of (ex_invoice [ex_btc, ex_ln])). is_lightning m"
    by (simp add: methods_of_ex_invoice ex_labels)
  from C1_selection [OF h, of True] l
  obtain pre m post where d: "methods_of (ex_invoice [ex_btc, ex_ln]) = pre @ m # post"
      "is_lightning m" "select_method True (methods_of (ex_invoice [ex_btc, ex_ln])) = Inr m"
    by blast
  from d(1) have "m \<in> set [ex_btc, ex_ln]"
    by (simp add: methods_of_ex_invoice)
  with d(2) have "m = ex_ln" using ex_labels by auto
  with d(3) have t: "select_method True (methods_of (ex_invoice [ex_btc, ex_ln])) = Inr ex_ln"
    by simp
  from C1_selection [OF h, of False]
  have "select_method False (methods_of (ex_invoice [ex_btc, ex_ln])) = Inr ex_btc"
    by (simp add: methods_of_ex_invoice)
  with h t show ?thesis by simp
qed

subsection \<open>Empty method list\<close>

text \<open>
  C7. Resolving an invoice whose method list is empty fails with the ``no payment
  methods'' ValueError, for both values of the Lightning preference in bot\_groups.py and
  in the resolvers of bot.py and btcpay.py alike; the result is the error alone, so no
  method is selected and no URI or QR is built.
\<close>

theorem C7_no_methods:
  assumes "methods_of iv = []"
  shows "resolve_groups True iv = Inl (ValueError ''No payment methods found in invoice.'')
       \<and> resolve_groups False iv = Inl (ValueError ''No payment methods found in invoice.'')
       \<and> resolve_bot iv = Inl (ValueError ''No payment methods in invoice'')
       \<and> resolve_btcpay iv = Inl (ValueError ''No payment methods found in invoice.'')
       \<and> (get_invoice_groups cfg gw g invoice_id = (Inr iv, g') \<longrightarrow>
            generate_payment_qr_groups cfg gw g invoice_id prefer
              = (Inl (ValueError ''No payment methods found in invoice.''), g'))
       \<and> (get_invoice_bot cfg gw g invoice_id = (Inr iv, g') \<longrightarrow>
            generate_payment_qr_bot cfg gw g invoice_id
              = (Inl (ValueError ''No payment methods in invoice''), g'))"
  using assms
  by (simp add: resolve_groups_def resolve_bot_def resolve_btcpay_def
        generate_payment_qr_groups_def generate_payment_qr_bot_def)

lemma get_invoice_groups_ex:
  "get_invoice_groups ex_config (ex_gateway iv) g invoice_id = (Inr iv, Suc g)"
  by (simp add: get_invoice_groups_def headers_groups_def falsy_def ex_config_def ex_gateway_def)

lemma get_invoice_bot_ex:
  "get_invoice_bot cfg (ex_gateway iv) g invoice_id = (Inr iv, Suc g)"
  by (simp add: get_invoice_bot_def ex_gateway_def)

theorem C7_no_methods_witness:
  "methods_of (ex_invoice []) = []
   \<and> resolve_groups True (ex_invoice []) = Inl (ValueError ''No payment methods found in invoice.'')
   \<and> resolve_groups False (ex_invoice []) = Inl (ValueError ''No payment methods found in invoice.'')
   \<and> resolve_bot (ex_invoice []) = Inl (ValueError ''No payment methods in invoice'')
   \<and> generate_payment_qr_groups ex_config (ex_gateway (ex_invoice [])) 0 ''inv_1'' True
        = (Inl (ValueError ''No payment methods found in invoice.''), 1)
   \<and> generate_payment_qr_bot ex_config (ex_gateway (ex_invoice [])) 0 ''inv_1''
        = (Inl (ValueError ''No payment methods in invoice''), 1)"
proof -
  have h: "methods_of (ex_invoice []) = []"
    by (simp add: methods_of_ex_invoice)
  from C7_no_methods [OF h, of ex_config "ex_gateway (ex_invoice [])" 0 "''inv_1''" 1 True]
  show ?thesis
    using h by (simp add: get_invoice_groups_ex get_invoice_bot_ex)
qed

subsection \<open>URI construction\<close>

lemma is_lightning_amount_update: "is_lightning (m\<lparr> amount := a \<rparr>) = is_lightning m"
  by (simp add: is_lightning_def label_of_def)

text \<open>
  C10. When the selected on-chain method has an amount field that is present but falsy
  (the empty string, zero, false or null), the URI is the one built for the same method
  without any amount field: \<^verbatim>\<open>bitcoin:\<close> followed by the destination and nothing
  after it. This holds in bot\_groups.py and in bot.py alike.
\<close>

theorem C10_falsy_amount:
  assumes "amount m = Some v" and "\<not> truthy v"
  shows "payment_uri m = payment_uri (m\<lparr> amount := None \<rparr>)
       \<and> (\<not> is_lightning m \<and> truthy (py_get (destination m)) \<longrightarrow>
            payment_uri m = Inr (''bitcoin:'' @ py_str (py_get (destination m))))
       \<and> (methods_of iv = m # rest \<and> methods_of iv' = m\<lparr> amount := None \<rparr> # rest' \<longrightarrow>
            resolve_bot iv = resolve_bot iv'
            \<and> resolve_bot iv = Inr (''bitcoin:'' @ py_str (py_get (destination m))))"
  using assms
  by (simp add: payment_uri_def resolve_bot_def Let_def is_lightning_amount_update)

theorem C10_falsy_amount_witness:
  "amount ex_empty_amount = Some (JStr []) \<and> \<not> truthy (JStr [])
   \<and> payment_uri ex_empty_amount = Inr ''bitcoin:bc1q''
   \<and> resolve_bot (ex_invoice [ex_empty_amount]) = Inr ''bitcoin:bc1q''"
proof -
  have a: "amount ex_empty_amount = Some (JStr [])" by (simp add: ex_empty_amount_def)
  have b: "\<not> truthy (JStr [])" by simp
  have c: "\<not> is_lightning ex_empty_amount \<and> truthy (py_get (destination ex_empty_amount))"
    by (simp add: ex_empty_amount_def is_lightning_def label_of_def)
  have d: "py_str (py_get (destination ex_empty_amount)) = ''bc1q''"
    by (simp add: ex_empty_amount_def)
  from C10_falsy_amount [OF a b, of "ex_invoice [ex_empty_amount]" "[]"
        "ex_invoice [ex_empty_amount\<lparr> amount := None \<rparr>]" "[]"]
  have "payment_uri ex_empty_amount = Inr (''bitcoin:'' @ ''bc1q'')
        \<and> resolve_bot (ex_invoice [ex_empty_amount]) = Inr (''bitcoin:'' @ ''bc1q'')"
    using c d by (auto simp add: methods_of_ex_invoice)
  then show ?thesis using a b by simp
qed

text \<open>
  C2 fails in bot.py, which has no notion of a Lightning method: a first method whose label contains
  \<^verbatim>\<open>Lightning\<close> and which carries an amount gets the on-chain form with the amount
  suffix.
\<close>

theorem C2_lightning_in_bot_counterexample:
  "is_lightning ex_ln \<and> amount ex_ln = Some (JStr ''0.01'')
   \<and> methods_of (ex_invoice [ex_ln]) = [ex_ln]
   \<and> resolve_bot (ex_invoice [ex_ln]) = Inr ''bitcoin:lnbc1?amount=0.01''"
  by (simp add: ex_labels methods_of_ex_invoice resolve_bot_def) (simp add: ex_ln_def)

text \<open>
  C2, as the code has it. For a method with a destination: in bot\_groups.py an on-chain
  method yields \<^verbatim>\<open>bitcoin:destination?amount=N\<close> when it carries a (truthy) amount and
  \<^verbatim>\<open>bitcoin:destination\<close> when it carries none, and a Lightning method yields
  \<^verbatim>\<open>lightning:destination\<close> whether or not it carries an amount. In bot.py the first
  method is always given the on-chain form, with the amount suffix exactly when it
  carries an amount, whatever its label.
\<close>

theorem C2_uri_forms:
  assumes "truthy (py_get (destination m))"
  shows "(\<not> is_lightning m \<and> truthy (py_get (amount m)) \<longrightarrow>
            payment_uri m = Inr (''bitcoin:'' @ py_str (py_get (destination m))
                                 @ ''?amount='' @ py_str (py_get (amount m))))
       \<and> (\<not> is_lightning m \<and> \<not> truthy (py_get (amount m)) \<longrightarrow>
            payment_uri m = Inr (''bitcoin:'' @ py_str (py_get (destination m))))
       \<and> (is_lightning m \<longrightarrow>
            payment_uri m = Inr (''lightning:'' @ py_str (py_get (destination m))))
       \<and> (methods_of iv = m # rest \<and> truthy (py_get (amount m)) \<longrightarrow>
            resolve_bot iv = Inr (''bitcoin:'' @ py_str (py_get (destination m))
                                  @ ''?amount='' @ py_str (py_get (amount m))))
       \<and> (methods_of iv = m # rest \<and> \<not> truthy (py_get (amount m)) \<longrightarrow>
            resolve_bot iv = Inr (''bitcoin:'' @ py_str (py_get (destination m))))"
  using assms by (simp add: payment_uri_def resolve_bot_def Let_def)

theorem C2_uri_forms_witness:
  "truthy (py_get (destination ex_btc)) \<and> truthy (py_get (destination ex_ln))
   \<and> payment_uri ex_btc = Inr ''bitcoin:bc1q?amount=0.01''
   \<and> payment_uri (ex_btc\<lparr> amount := None \<rparr>) = Inr ''bitcoin:bc1q''
   \<and> payment_uri ex_ln = Inr ''lightning:lnbc1''
   \<and> resolve_bot (ex_invoice [ex_btc]) = Inr ''bitcoin:bc1q?amount=0.01''"
proof -
  have a: "truthy (py_get (destination ex_btc))" by (simp add: ex_btc_def)
  have b: "truthy (py_get (destination ex_ln))" by (simp add: ex_ln_def)
  have c: "truthy (py_get (destination (ex_btc\<lparr> amount := None \<rparr>)))" by (simp add: ex_btc_def)
  have v: "py_str (py_get (destination ex_btc)) = ''bc1q''"
          "py_str (py_get (amount ex_btc)) = ''0.01''" "truthy (py_get (amount ex_btc))"
          "py_str (py_get (destination ex_ln)) = ''lnbc1''"
    by (simp_all add: ex_btc_def ex_ln_def)
  from C2_uri_forms [OF a, of "ex_invoice [ex_btc]" "[]"]
       C2_uri_forms [OF b, of "ex_invoice [ex_ln]" "[]"]
       C2_uri_forms [OF c, of "ex_invoice [ex_btc]" "[]"]
  show ?thesis
    using a b v ex_labels by (simp add: methods_of_ex_invoice is_lightning_amount_update)
qed

subsection \<open>Missing destination\<close>

text \<open>bot\_groups.py and btcpay.py refuse a method without a destination.\<close>

lemma no_destination_checked:
  assumes "\<not> truthy (py_get (destination m))"
  shows "payment_uri m = Inl (ValueError ''No payment destination found.'')"
    and "methods_of iv = m # rest \<Longrightarrow>
           resolve_btcpay iv = Inl (ValueError ''No payment address found in invoice.'')"
  using assms by (simp_all add: payment_uri_def resolve_btcpay_def Let_def)

text \<open>
  C3. bot.py has no such check. On an invoice whose only method lacks the destination key
  it formats Python's \<^verbatim>\<open>None\<close> into the URI and returns a QR for it, where the two
  sibling resolvers fail with their ``no destination'' ValueError.
\<close>

theorem C3_bot_no_destination:
  "methods_of (ex_invoice [ex_no_dest]) = [ex_no_dest]
   \<and> destination ex_no_dest = None
   \<and> resolve_bot (ex_invoice [ex_no_dest]) = Inr ''bitcoin:None?amount=0.01''
   \<and> generate_payment_qr_bot ex_config (ex_gateway (ex_invoice [ex_no_dest])) 0 ''inv_1''
        = (Inr (QrPng ''bitcoin:None?amount=0.01''), 1)
   \<and> resolve_groups False (ex_invoice [ex_no_dest])
        = Inl (ValueError ''No payment destination found.'')
   \<and> resolve_btcpay (ex_invoice [ex_no_dest])
        = Inl (ValueError ''No payment address found in invoice.'')"
  by (simp add: methods_of_ex_invoice resolve_bot_def generate_payment_qr_bot_def
        get_invoice_bot_ex resolve_groups_def select_method_def payment_uri_def
        resolve_btcpay_def)
     (simp add: ex_no_dest_def)

subsection \<open>Gateway credentials\<close>

lemma headers_btcpay_missing:
  assumes "falsy (BTCPAY_API_KEY cfg) \<or> falsy (BTCPAY_STORE_ID cfg)"
  shows "\<exists>msg. headers_btcpay cfg = Inl (RuntimeError msg)"
  using assms by (auto simp: headers_btcpay_def require_env_def)

lemma headers_groups_missing:
  assumes "falsy (BTCPAY_API_KEY cfg) \<or> falsy (BTCPAY_STORE_ID cfg)"
  shows "headers_groups cfg = Inl (RuntimeError
           (cross_mark @ '' Missing BTCPAY_API_KEY or BTCPAY_STORE_ID in .env''))"
  using assms by (auto simp: headers_groups_def)

lemma headers_present:
  assumes "\<not> falsy (BTCPAY_API_KEY cfg)" and "\<not> falsy (BTCPAY_STORE_ID cfg)"
  shows "headers_btcpay cfg = Inr (auth_headers cfg)"
    and "headers_groups cfg = Inr (auth_headers cfg)"
  using assms by (simp_all add: headers_btcpay_def require_env_def headers_groups_def)

text \<open>
  C4 fails on the code: with no credential set at all, importing btcpay.py succeeds, and
  the failure appears in each of \<^verbatim>\<open>get_invoice\<close>, \<^verbatim>\<open>is_invoice_paid\<close> and
  \<^verbatim>\<open>create_invoice\<close> when it is called.
\<close>

theorem C4_startup_counterexample:
  "load_btcpay ex_empty_environ = Inr ex_unconfigured
   \<and> get_invoice_btcpay ex_unconfigured (ex_gateway (ex_invoice [ex_btc])) 0 ''inv_1''
       = (Inl (RuntimeError
            ''Missing env var(s): BTCPAY_API_KEY, BTCPAY_STORE_ID. Add them to your .env file.''), 0)
   \<and> is_invoice_paid ex_unconfigured (ex_gateway (ex_invoice [ex_btc])) 0 ''inv_1''
       = (Inl (RuntimeError
            ''Missing env var(s): BTCPAY_API_KEY, BTCPAY_STORE_ID. Add them to your .env file.''), 0)
   \<and> create_invoice_btcpay ex_unconfigured (ex_gateway (ex_invoice [ex_btc])) 0
         ''escrow_1'' ''10.0'' ''USD'' None
       = (Inl (RuntimeError
            ''Missing env var(s): BTCPAY_API_KEY, BTCPAY_STORE_ID. Add them to your .env file.''), 0)"
  by (simp add: load_btcpay_def ex_empty_environ_def ex_unconfigured_def rstrip_slash_def
        get_invoice_btcpay_def is_invoice_paid_def create_invoice_btcpay_def
        headers_btcpay_def require_env_def falsy_def)

text \<open>
  C4, as the code has it. Loading btcpay.py never fails, whatever the environment holds;
  it only copies the two credentials. With the API key or the store id missing (unset or
  empty), every call of \<^verbatim>\<open>create_invoice\<close>, \<^verbatim>\<open>get_invoice\<close> and
  \<^verbatim>\<open>is_invoice_paid\<close> in btcpay.py, and of \<^verbatim>\<open>create_invoice\<close> and
  \<^verbatim>\<open>get_invoice\<close> in bot\_groups.py, fails with the RuntimeError of the credentials
  check in \<^verbatim>\<open>_headers\<close>, and the gateway is left untouched: no request is sent.
\<close>

theorem C4_checked_per_call:
  assumes "falsy (BTCPAY_API_KEY cfg) \<or> falsy (BTCPAY_STORE_ID cfg)"
  shows "(\<exists>loaded. load_btcpay env = Inr loaded
            \<and> BTCPAY_API_KEY loaded = env ''BTCPAY_API_KEY''
            \<and> BTCPAY_STORE_ID loaded = env ''BTCPAY_STORE_ID'')
       \<and> (\<exists>msg. create_invoice_btcpay cfg gw g escrow_id amount_text currency buyer_email
                    = (Inl (RuntimeError msg), g)
                \<and> get_invoice_btcpay cfg gw g invoice_id = (Inl (RuntimeError msg), g)
                \<and> is_invoice_paid cfg gw g invoice_id = (Inl (RuntimeError msg), g))
       \<and> (\<exists>msg. create_invoice_groups cfg gw g escrow_id amount_text currency
                    = (Inl (RuntimeError msg), g)
                \<and> get_invoice_groups cfg gw g invoice_id = (Inl (RuntimeError msg), g))"
proof (intro conjI)
  show "\<exists>loaded. load_btcpay env = Inr loaded
            \<and> BTCPAY_API_KEY loaded = env ''BTCPAY_API_KEY''
            \<and> BTCPAY_STORE_ID loaded = env ''BTCPAY_STORE_ID''"
    by (simp add: load_btcpay_def)
next
  from headers_btcpay_missing [OF assms]
  obtain msg where h: "headers_btcpay cfg = Inl (RuntimeError msg)" by blast
  have "create_invoice_btcpay cfg gw g escrow_id amount_text currency buyer_email
          = (Inl (RuntimeError msg), g)
        \<and> get_invoice_btcpay cfg gw g invoice_id = (Inl (RuntimeError msg), g)
        \<and> is_invoice_paid cfg gw g invoice_id = (Inl (RuntimeError msg), g)"
    by (simp add: create_invoice_btcpay_def get_invoice_btcpay_def is_invoice_paid_def h)
  then show "\<exists>msg. create_invoice_btcpay cfg gw g escrow_id amount_text currency buyer_email
                    = (Inl (RuntimeError msg), g)
                \<and> get_invoice_btcpay cfg gw g invoice_id = (Inl (RuntimeError msg), g)
                \<and> is_invoice_paid cfg gw g invoice_id = (Inl (RuntimeError msg), g)"
    by blast
next
  have "create_invoice_groups cfg gw g escrow_id amount_text currency
          = (Inl (RuntimeError
               (cross_mark @ '' Missing BTCPAY_API_KEY or BTCPAY_STORE_ID in .env'')), g)
        \<and> get_invoice_groups cfg gw g invoice_id
          = (Inl (RuntimeError
               (cross_mark @ '' Missing BTCPAY_API_KEY or BTCPAY_STORE_ID in .env'')), g)"
    by (simp add: create_invoice_groups_def get_invoice_groups_def
          headers_groups_missing [OF assms])
  then show "\<exists>msg. create_invoice_groups cfg gw g escrow_id amount_text currency
                    = (Inl (RuntimeError msg), g)
                \<and> get_invoice_groups cfg gw g invoice_id = (Inl (RuntimeError msg), g)"
    by blast
qed

theorem C4_checked_per_call_witness:
  "(falsy (BTCPAY_API_KEY ex_unconfigured) \<or> falsy (BTCPAY_STORE_ID ex_unconfigured))
   \<and> (\<exists>msg. get_invoice_btcpay ex_unconfigured (ex_gateway (ex_invoice [ex_btc])) 0 ''inv_1''
               = (Inl (RuntimeError msg), 0))
   \<and> (\<exists>msg. get_invoice_groups ex_unconfigured (ex_gateway (ex_invoice [ex_btc])) 0 ''inv_1''
               = (Inl (RuntimeError msg), 0))"
proof -
  have h: "falsy (BTCPAY_API_KEY ex_unconfigured) \<or> falsy (BTCPAY_STORE_ID ex_unconfigured)"
    by (simp add: falsy_def ex_unconfigured_def)
  from C4_checked_per_call [OF h, of ex_empty_environ "ex_gateway (ex_invoice [ex_btc])" 0
        "''escrow_1''" "''10.0''" "''USD''" None "''inv_1''"]
  show ?thesis using h by blast
qed

subsection \<open>Role registry\<close>

lemma user_roles_emit: "user_roles (emit e s) = user_roles s"
  by (simp add: emit_def)

lemma user_roles_cmd_seller:
  "user_roles (cmd_seller msg s) =
     (if length (py_split (text_of msg)) < 2 then user_roles s
      else register (from_user msg) ''seller'' (py_split (text_of msg) ! 1) (user_roles s))"
  by (simp add: cmd_seller_def Let_def user_roles_emit)

lemma user_roles_cmd_buyer:
  "user_roles (cmd_buyer msg s) =
     (if length (py_split (text_of msg)) < 2 then user_roles s
      else register (from_user msg) ''buyer'' (py_split (text_of msg) ! 1) (user_roles s))"
  by (simp add: cmd_buyer_def Let_def user_roles_emit)

lemma register_twice: "register uid r2 a2 (register uid r1 a1 reg) = register uid r2 a2 reg"
  by (simp add: register_def)

lemma lookup_register: "lookup (register uid r a reg) uid = Some \<lparr> role = r, address = a \<rparr>"
  by (simp add: register_def lookup_def)

text \<open>
  C5. Registering an identity twice leaves the registry exactly as the second
  registration alone does, and looking the identity up gives the role and the address of
  the second call together. The same holds for the handlers: when two registration
  commands come from one user and the second carries an address, the registry after both
  is the registry after the second alone, in all four orders of \<^verbatim>\<open>/seller\<close> and
  \<^verbatim>\<open>/buyer\<close>, and the stored record has the second command's role and address.
\<close>

theorem C5_last_write_wins:
  "register uid r2 a2 (register uid r1 a1 reg) = register uid r2 a2 reg
   \<and> lookup (register uid r2 a2 (register uid r1 a1 reg)) uid
       = Some \<lparr> role = r2, address = a2 \<rparr>
   \<and> (from_user m1 = from_user m2 \<and> 2 \<le> length (py_split (text_of m2)) \<longrightarrow>
        user_roles (cmd_buyer m2 (cmd_seller m1 s)) = user_roles (cmd_buyer m2 s)
        \<and> user_roles (cmd_seller m2 (cmd_buyer m1 s)) = user_roles (cmd_seller m2 s)
        \<and> user_roles (cmd_seller m2 (cmd_seller m1 s)) = user_roles (cmd_seller m2 s)
        \<and> user_roles (cmd_buyer m2 (cmd_buyer m1 s)) = user_roles (cmd_buyer m2 s)
        \<and> lookup (user_roles (cmd_buyer m2 (cmd_seller m1 s))) (from_user m2)
            = Some \<lparr> role = ''buyer'', address = py_split (text_of m2) ! 1 \<rparr>
        \<and> lookup (user_roles (cmd_seller m2 (cmd_buyer m1 s))) (from_user m2)
            = Some \<lparr> role = ''seller'', address = py_split (text_of m2) ! 1 \<rparr>)"
  by (simp add: register_twice lookup_register user_roles_cmd_seller user_roles_cmd_buyer)

lemma py_split_ex:
  "py_split (points ''/seller addrA'') = [''/seller'', ''addrA'']"
  "py_split (points ''/buyer addrB'') = [''/buyer'', ''addrB'']"
  "py_split (points ''/seller  '') = [''/seller'']"
  "py_split (points ''/pay inv_1'') = [''/pay'', ''inv_1'']"
  by (simp_all add: py_split_def str_split_def points_def is_space_def utf8_def
        utf8_point_def char_of_eq_iff)

theorem C5_last_write_wins_witness:
  "from_user ex_seller_msg = from_user ex_buyer_msg
   \<and> 2 \<le> length (py_split (text_of ex_buyer_msg))
   \<and> user_roles (cmd_buyer ex_buyer_msg (cmd_seller ex_seller_msg ex_state))
       = user_roles (cmd_buyer ex_buyer_msg ex_state)
   \<and> lookup (user_roles (cmd_buyer ex_buyer_msg (cmd_seller ex_seller_msg ex_state))) 42
       = Some \<lparr> role = ''buyer'', address = ''addrB'' \<rparr>"
proof -
  have h: "from_user ex_seller_msg = from_user ex_buyer_msg
           \<and> 2 \<le> length (py_split (text_of ex_buyer_msg))"
    by (simp add: ex_seller_msg_def ex_buyer_msg_def py_split_ex)
  have v: "from_user ex_buyer_msg = 42" "py_split (text_of ex_buyer_msg) ! 1 = ''addrB''"
    by (simp_all add: ex_buyer_msg_def py_split_ex)
  from C5_last_write_wins [of _ _ _ _ _ _ ex_seller_msg ex_buyer_msg ex_state] h
  have "user_roles (cmd_buyer ex_buyer_msg (cmd_seller ex_seller_msg ex_state))
          = user_roles (cmd_buyer ex_buyer_msg ex_state)
        \<and> lookup (user_roles (cmd_buyer ex_buyer_msg (cmd_seller ex_seller_msg ex_state)))
             (from_user ex_buyer_msg)
          = Some \<lparr> role = ''buyer'', address = py_split (text_of ex_buyer_msg) ! 1 \<rparr>"
    by blast
  then show ?thesis using h v by auto
qed

subsection \<open>Commands without an argument\<close>

lemma split_from_spaces:
  "\<forall>c\<in>set u. is_space c \<Longrightarrow> split_from cur u = (if cur = [] then [] else [cur])"
  by (induction u arbitrary: cur) auto

lemma split_from_append_spaces:
  "\<forall>c\<in>set u. is_space c \<Longrightarrow> split_from cur (t @ u) = split_from cur t"
proof (induction t arbitrary: cur)
  case Nil
  then show ?case by (simp add: split_from_spaces)
next
  case (Cons a t)
  then show ?case by simp
qed

lemma split_from_dropWhile: "split_from [] (dropWhile is_space s) = split_from [] s"
  by (induction s) auto

lemma split_from_rstrip:
  "split_from cur (rev (dropWhile is_space (rev s))) = split_from cur s"
proof -
  have "s = rev (dropWhile is_space (rev s)) @ rev (takeWhile is_space (rev s))"
    by (metis rev_append rev_rev_ident takeWhile_dropWhile_id)
  moreover have "\<forall>c\<in>set (rev (takeWhile is_space (rev s))). is_space c"
    by (auto dest: set_takeWhileD)
  ultimately show ?thesis
    by (metis split_from_append_spaces)
qed

lemma py_split_strip: "py_split (py_strip s) = py_split s"
  by (simp add: py_split_def str_split_def py_strip_def split_from_rstrip
        split_from_dropWhile)

text \<open>
  Any of Python's whitespace characters separates tokens, not only the ASCII ones: a
  command whose address follows a no-break space has two tokens and registers the address.
\<close>

lemma nbsp_separates:
  "py_split (text_of ex_nbsp_msg) = [''/seller'', ''addrE'']"
  "lookup (user_roles (cmd_seller ex_nbsp_msg ex_state)) 7
     = Some \<lparr> role = ''seller'', address = ''addrE'' \<rparr>"
proof -
  show t: "py_split (text_of ex_nbsp_msg) = [''/seller'', ''addrE'']"
    by (simp add: ex_nbsp_msg_def py_split_def str_split_def points_def is_space_def utf8_def
          utf8_point_def char_of_eq_iff)
  show "lookup (user_roles (cmd_seller ex_nbsp_msg ex_state)) 7
     = Some \<lparr> role = ''seller'', address = ''addrE'' \<rparr>"
    by (simp add: user_roles_cmd_seller t lookup_register)
       (simp add: ex_nbsp_msg_def lookup_register)
qed

text \<open>
  C9. A registration or payment command whose text \<^verbatim>\<open>str.split()\<close> cuts into fewer
  than two tokens makes the handler reply with its usage message and do nothing else: the
  state afterwards is the state before with that one reply added, so the registry is
  unchanged for every identity. This covers \<^verbatim>\<open>/seller\<close>, \<^verbatim>\<open>/buyer\<close> and \<^verbatim>\<open>/pay\<close> of bot.py and
  \<^verbatim>\<open>/pay\<close> of bot\_groups.py.
\<close>

theorem C9_usage_no_change:
  assumes "length (py_split (text_of msg)) < 2"
  shows "cmd_seller msg s = emit (Reply UsageSeller) s
       \<and> cmd_buyer msg s = emit (Reply UsageBuyer) s
       \<and> cmd_pay_bot cfg gw pf msg s = emit (Reply UsagePay) s
       \<and> cmd_pay_groups cfg gw pf msg s = emit (Reply UsagePay) s
       \<and> user_roles (cmd_seller msg s) = user_roles s
       \<and> user_roles (cmd_buyer msg s) = user_roles s
       \<and> user_roles (cmd_pay_bot cfg gw pf msg s) = user_roles s
       \<and> user_roles (cmd_pay_groups cfg gw pf msg s) = user_roles s"
  using assms
  by (simp add: cmd_seller_def cmd_buyer_def cmd_pay_bot_def cmd_pay_groups_def
        py_split_strip Let_def user_roles_emit)

theorem C9_usage_no_change_witness:
  "length (py_split (text_of ex_bare_msg)) < 2
   \<and> cmd_seller ex_bare_msg ex_registered = emit (Reply UsageSeller) ex_registered
   \<and> cmd_buyer ex_bare_msg ex_registered = emit (Reply UsageBuyer) ex_registered
   \<and> lookup (user_roles (cmd_buyer ex_bare_msg ex_registered)) 42
       = Some \<lparr> role = ''seller'', address = ''addrA'' \<rparr>
   \<and> lookup (user_roles (cmd_buyer ex_bare_msg ex_registered)) 7 = None
   \<and> trace (cmd_buyer ex_bare_msg ex_registered) = [(5, Reply UsageBuyer)]"
proof -
  have h: "length (py_split (text_of ex_bare_msg)) < 2"
    by (simp add: ex_bare_msg_def py_split_ex)
  from C9_usage_no_change [OF h, of ex_registered ex_config "ex_gateway (ex_invoice [ex_btc])"
        ex_platform]
  have r: "cmd_seller ex_bare_msg ex_registered = emit (Reply UsageSeller) ex_registered"
      "cmd_buyer ex_bare_msg ex_registered = emit (Reply UsageBuyer) ex_registered"
      "user_roles (cmd_buyer ex_bare_msg ex_registered) = user_roles ex_registered"
    by blast+
  have "lookup (user_roles ex_registered) 42 = Some \<lparr> role = ''seller'', address = ''addrA'' \<rparr>"
       "lookup (user_roles ex_registered) 7 = None"
    by (simp_all add: ex_registered_def lookup_def)
  moreover have "trace (emit (Reply UsageBuyer) ex_registered) = [(5, Reply UsageBuyer)]"
    by (simp add: emit_def ex_registered_def)
  ultimately show ?thesis using h r by simp
qed

subsection \<open>Deleting the payment display\<close>

lemma generate_payment_qr_groups_ex:
  "generate_payment_qr_groups ex_config (ex_gateway (ex_invoice [ex_btc])) g ''inv_1'' False
     = (Inr (QrPng ''bitcoin:bc1q?amount=0.01'', ''bitcoin:bc1q?amount=0.01''), Suc g)"
  by (simp add: generate_payment_qr_groups_def get_invoice_groups_ex resolve_groups_def
        methods_of_ex_invoice select_method_def payment_uri_def ex_labels Let_def)
     (simp add: ex_btc_def)

text \<open>
  C8 fails in bot\_groups.py: its \<^verbatim>\<open>/pay\<close> handler sends the QR and stops. On a run
  where the payment display succeeds, the effects are the file write and the photo reply,
  with no sleep and no deletion of either message.
\<close>

theorem C8_groups_never_deletes_counterexample:
  "trace (cmd_pay_groups ex_config (ex_gateway (ex_invoice [ex_btc])) ex_platform
            ex_pay_msg ex_state)
     = [(0, WriteFile ''/tmp/inv_1.png'' (QrPng ''bitcoin:bc1q?amount=0.01'')),
        (0, ReplyPhoto ''/tmp/inv_1.png'' ''inv_1'' ''bitcoin:bc1q?amount=0.01'')]"
  by (simp add: cmd_pay_groups_def ex_pay_msg_def py_split_strip py_split_ex
        generate_payment_qr_groups_ex ex_state_def ex_platform_def emit_def Let_def)

lemma trace_emit: "trace (emit e s) = trace s @ [(now s, e)]"
  by (simp add: emit_def)

lemma now_emit: "now (emit e s) = now s"
  by (simp add: emit_def)

lemma cmd_pay_groups_trace:
  "trace (cmd_pay_groups cfg gw pf msg s) = trace s @ added \<Longrightarrow> (t, Delete r) \<notin> set added"
  by (auto simp: cmd_pay_groups_def Let_def trace_emit now_emit
           split: if_splits prod.splits sum.splits option.splits)

text \<open>
  C8, as the code has it. In bot.py, once the payment photo has been sent at time \<open>t\<close>,
  everything the handler does afterwards happens at \<open>t + 60\<close>, so no message is deleted
  earlier; and when the platform accepts both deletion calls, the effects are exactly the
  photo at \<open>t\<close>, then at \<open>t + 60\<close> the deletion of the payment-display message followed
  by the deletion of the command message. In bot\_groups.py the payment command adds no
  deletion at all.
\<close>

theorem C8_delete_after_sixty:
  assumes "2 \<le> length (py_split (text_of msg))"
    and "invoice_id = py_split (text_of msg) ! 1"
    and "get_invoice_bot cfg gw (gateway_state s) invoice_id = (Inr iv, g1)"
    and "generate_payment_qr_bot cfg gw g1 invoice_id = (Inr qr_buf, g2)"
    and "photo_result pf = None"
  shows "(\<exists>later. trace (cmd_pay_bot cfg gw pf msg s)
                    = trace s @ (now s, AnswerPhoto qr_buf invoice_id
                                          (py_str (py_get (checkoutLink iv)))) # later
                 \<and> (\<forall>(t, e)\<in>set later. t = now s + 60))
       \<and> (delete_result pf PhotoMsg = None \<and> delete_result pf CommandMsg = None \<longrightarrow>
            trace (cmd_pay_bot cfg gw pf msg s)
              = trace s @ [(now s, AnswerPhoto qr_buf invoice_id
                                     (py_str (py_get (checkoutLink iv)))),
                           (now s + 60, Delete PhotoMsg),
                           (now s + 60, Delete CommandMsg)])
       \<and> (trace (cmd_pay_groups cfg' gw' pf' msg' s') = trace s' @ added \<longrightarrow>
            (t', Delete r) \<notin> set added)"
proof (intro conjI impI)
  show "\<exists>later. trace (cmd_pay_bot cfg gw pf msg s)
                    = trace s @ (now s, AnswerPhoto qr_buf invoice_id
                                          (py_str (py_get (checkoutLink iv)))) # later
                 \<and> (\<forall>(t, e)\<in>set later. t = now s + 60)"
    using assms
    by (auto simp: cmd_pay_bot_def Let_def trace_emit now_emit sleep_def split: option.splits)
next
  assume "delete_result pf PhotoMsg = None \<and> delete_result pf CommandMsg = None"
  then show "trace (cmd_pay_bot cfg gw pf msg s)
              = trace s @ [(now s, AnswerPhoto qr_buf invoice_id
                                     (py_str (py_get (checkoutLink iv)))),
                           (now s + 60, Delete PhotoMsg),
                           (now s + 60, Delete CommandMsg)]"
    using assms
    by (simp add: cmd_pay_bot_def Let_def trace_emit now_emit sleep_def)
next
  assume "trace (cmd_pay_groups cfg' gw' pf' msg' s') = trace s' @ added"
  then show "(t', Delete r) \<notin> set added"
    by (rule cmd_pay_groups_trace)
qed

lemma get_invoice_bot_ex_btc:
  "generate_payment_qr_bot cfg (ex_gateway (ex_invoice [ex_btc])) g invoice_id
     = (Inr (QrPng ''bitcoin:bc1q?amount=0.01''), Suc g)"
  by (simp add: generate_payment_qr_bot_def get_invoice_bot_ex resolve_bot_def
        methods_of_ex_invoice Let_def)
     (simp add: ex_btc_def)

theorem C8_delete_after_sixty_witness:
  "2 \<le> length (py_split (text_of ex_pay_msg))
   \<and> photo_result ex_platform = None
   \<and> trace (cmd_pay_bot ex_config (ex_gateway (ex_invoice [ex_btc])) ex_platform
               ex_pay_msg ex_state)
       = [(0, AnswerPhoto (QrPng ''bitcoin:bc1q?amount=0.01'') ''inv_1''
                ''https://pay.example/i/inv_1''),
          (60, Delete PhotoMsg), (60, Delete CommandMsg)]"
proof -
  have a: "2 \<le> length (py_split (text_of ex_pay_msg))"
    and b: "''inv_1'' = py_split (text_of ex_pay_msg) ! 1"
    by (simp_all add: ex_pay_msg_def py_split_ex)
  have c: "get_invoice_bot ex_config (ex_gateway (ex_invoice [ex_btc]))
             (gateway_state ex_state) ''inv_1'' = (Inr (ex_invoice [ex_btc]), 1)"
    by (simp add: get_invoice_bot_ex ex_state_def)
  have d: "generate_payment_qr_bot ex_config (ex_gateway (ex_invoice [ex_btc])) 1 ''inv_1''
             = (Inr (QrPng ''bitcoin:bc1q?amount=0.01''), 2)"
    by (simp add: get_invoice_bot_ex_btc)
  have e: "photo_result ex_platform = None"
    and f: "delete_result ex_platform PhotoMsg = None \<and> delete_result ex_platform CommandMsg = None"
    by (simp_all add: ex_platform_def)
  from C8_delete_after_sixty [OF a b c d e] f
  have "trace (cmd_pay_bot ex_config (ex_gateway (ex_invoice [ex_btc])) ex_platform
                 ex_pay_msg ex_state)
          = trace ex_state @ [(now ex_state, AnswerPhoto (QrPng ''bitcoin:bc1q?amount=0.01'')
                                   ''inv_1'' (py_str (py_get (checkoutLink (ex_invoice [ex_btc]))))),
                               (now ex_state + 60, Delete PhotoMsg),
                               (now ex_state + 60, Delete CommandMsg)]"
    by blast
  then show ?thesis using a e by (simp add: ex_state_def ex_invoice_def)
qed

subsection \<open>Channel provisioning\<close>

text \<open>
  C6 fails on the code: \<^verbatim>\<open>create_new_group\<close> first looks the bot's username up when
  \<^verbatim>\<open>BOT_USERNAME_CACHE\<close> is empty, and a failure of that lookup fails provisioning
  although channel creation and the invite-link call would both succeed.
\<close>

theorem C6_identity_lookup_counterexample:
  "create_supergroup_result ex_tdlib_no_identity ''Escrow #abcde'' = Inr 1001
   \<and> create_chat_invite_link_result ex_tdlib_no_identity 1001 = Inr ''https://t.me/+abc''
   \<and> create_new_group ex_tdlib_no_identity ''Escrow'' None
       = (Inl (ExternalError ''get_me refused''), None)"
  by (simp add: create_new_group_def ex_tdlib_no_identity_def ex_tdlib_def falsy_def)

text \<open>
  C6, as the code has it. Provisioning returns a handle exactly when the bot's username
  is cached or its lookup succeeds, channel creation succeeds, and the primary export or
  the fallback creation of the invite link succeeds. The outcomes of adding the bot and
  of promoting it have no influence on the result. The handle returned carries the
  generated title, the id of the created chat, and the link of the primary export, or of
  the fallback call when the primary export failed.
\<close>

theorem C6_provisioning:
  "((\<exists>link title chat_id. fst (create_new_group td base cache) = Inr (link, title, chat_id))
      \<longleftrightarrow>
      (\<not> falsy cache \<or> (\<exists>name. get_me_result td = Inr name))
      \<and> (\<exists>chat_id. create_supergroup_result td (base @ '' #'' @ generate_suffix (draw td) 5)
                      = Inr chat_id
            \<and> ((\<exists>l. export_chat_invite_link_result td chat_id = Inr l)
                 \<or> (\<exists>l. create_chat_invite_link_result td chat_id = Inr l))))
   \<and> create_new_group (td\<lparr> add_chat_members_result := a, promote_chat_member_result := p \<rparr>)
        base cache
       = create_new_group td base cache
   \<and> (fst (create_new_group td base cache) = Inr (link, title, chat_id) \<longrightarrow>
        title = base @ '' #'' @ generate_suffix (draw td) 5
        \<and> create_supergroup_result td title = Inr chat_id
        \<and> (export_chat_invite_link_result td chat_id = Inr link
             \<or> (\<exists>e. export_chat_invite_link_result td chat_id = Inl e)
                \<and> create_chat_invite_link_result td chat_id = Inr link))"
proof (intro conjI)
  show "(\<exists>link title chat_id. fst (create_new_group td base cache) = Inr (link, title, chat_id))
      \<longleftrightarrow>
      (\<not> falsy cache \<or> (\<exists>name. get_me_result td = Inr name))
      \<and> (\<exists>chat_id. create_supergroup_result td (base @ '' #'' @ generate_suffix (draw td) 5)
                      = Inr chat_id
            \<and> ((\<exists>l. export_chat_invite_link_result td chat_id = Inr l)
                 \<or> (\<exists>l. create_chat_invite_link_result td chat_id = Inr l)))"
    by (auto simp: create_new_group_def Let_def split: sum.splits if_splits)
next
  show "create_new_group (td\<lparr> add_chat_members_result := a, promote_chat_member_result := p \<rparr>)
        base cache
       = create_new_group td base cache"
    by (auto simp: create_new_group_def Let_def split: sum.splits)
next
  show "fst (create_new_group td base cache) = Inr (link, title, chat_id) \<longrightarrow>
        title = base @ '' #'' @ generate_suffix (draw td) 5
        \<and> create_supergroup_result td title = Inr chat_id
        \<and> (export_chat_invite_link_result td chat_id = Inr link
             \<or> (\<exists>e. export_chat_invite_link_result td chat_id = Inl e)
                \<and> create_chat_invite_link_result td chat_id = Inr link)"
    by (auto simp: create_new_group_def Let_def split: sum.splits if_splits)
qed

lemma generate_suffix_ex: "generate_suffix (\<lambda>k. k) 5 = ''abcde''"
  by (simp add: generate_suffix_def ascii_lowercase_def upt_rec)

theorem C6_provisioning_witness:
  "create_new_group ex_tdlib ''Escrow'' None
     = (Inr (''https://t.me/+abc'', ''Escrow #abcde'', 1001), Some ''escrow_bot'')
   \<and> (\<exists>link title chat_id.
         fst (create_new_group ex_tdlib ''Escrow'' None) = Inr (link, title, chat_id))"
proof -
  have r: "create_new_group ex_tdlib ''Escrow'' None
     = (Inr (''https://t.me/+abc'', ''Escrow #abcde'', 1001), Some ''escrow_bot'')"
    by (simp add: create_new_group_def ex_tdlib_def falsy_def generate_suffix_ex str_opt_def)
  have "(\<not> falsy None \<or> (\<exists>name. get_me_result ex_tdlib = Inr name))
      \<and> (\<exists>chat_id. create_supergroup_result ex_tdlib
                       (''Escrow'' @ '' #'' @ generate_suffix (draw ex_tdlib) 5) = Inr chat_id
            \<and> ((\<exists>l. export_chat_invite_link_result ex_tdlib chat_id = Inr l)
                 \<or> (\<exists>l. create_chat_invite_link_result ex_tdlib chat_id = Inr l)))"
    by (simp add: ex_tdlib_def)
  with C6_provisioning [of ex_tdlib "''Escrow''" None]
  have "\<exists>link title chat_id.
         fst (create_new_group ex_tdlib ''Escrow'' None) = Inr (link, title, chat_id)"
    by blast
  with r show ?thesis by blast
qed

end
